theory Spec2Isabelle
  imports Main "HOL-Library.Word" "HOL-Library.Sublist"
begin

section \<open>The sample program \<open>sample-apps/hello.cpp\<close>\<close>

text \<open>
  The repository's only source file is a console program whose \<open>main\<close> prints a
  greeting, the formatted current time and the value of \<open>GetVersion()\<close>, prompts, reads
  one character and returns 0. Everything it does is a call into the C and C++ run-time
  or into the Windows API, so the embedding has three layers:
  \<^item> the \<^emph>\<open>platform\<close>: what the host answers to \<open>time\<close>, \<open>ctime\<close> and \<open>GetVersion\<close>, and
    what its C++ library does with a null string;
  \<^item> the \<^emph>\<open>world\<close>: the two console streams, the log of platform calls made so far, and
    the rest of the system (files, environment, network);
  \<^item> \<open>main\<close> itself, statement by statement, as a chain of steps over the world.
\<close>

subsection \<open>Values\<close>

text \<open>
  \<open>time_t\<close> is an arithmetic type on which the program does no arithmetic: it is read
  from \<open>time\<close> and handed to \<open>ctime\<close>. \<open>DWORD\<close> is a 32-bit unsigned integer.
\<close>

type_synonym time_t = int
type_synonym DWORD = "32 word"

abbreviation newline :: char where
  "newline \<equiv> CHR 0x0A"

text \<open>
  The local variable \<open>osvi\<close>. \<open>szCSDVersion\<close> is the character array at the end of the
  structure.
\<close>

record OSVERSIONINFO =
  dwOSVersionInfoSize :: DWORD
  dwMajorVersion :: DWORD
  dwMinorVersion :: DWORD
  dwBuildNumber :: DWORD
  dwPlatformId :: DWORD
  szCSDVersion :: "8 word list"

subsection \<open>The platform\<close>

text \<open>
  \<^item> \<open>clock k\<close> is what the \<open>k\<close>-th call of \<open>time(0)\<close> of this run returns (counting from 0);
    \<open>-1\<close> is the failure value of \<open>time\<close>.
  \<^item> \<open>ctime tz t\<close> is the text \<open>ctime\<close> returns for \<open>t\<close>, up to the terminating NUL, or
    \<open>None\<close> where it returns a null pointer (a time it cannot represent). \<open>ctime\<close>
    formats local time, and the C run-time takes the time zone from the environment
    variable \<open>TZ\<close> of the process: \<open>tz\<close> is the value of that variable, \<open>None\<close> when it
    is not set (then the host's own zone is used).
  \<^item> \<open>GetVersion\<close> is the value of the Windows API function of that name. It has no way to
    signal a failure: every \<open>DWORD\<close> is a possible answer.
  \<^item> \<open>sizeof_OSVERSIONINFO\<close> is the size the Windows headers give the structure.
  \<^item> \<open>null_insertion\<close> is what the C++ library does when a null \<open>char*\<close> is inserted into
    a stream. The language requires a non-null pointer and leaves the rest to the
    library. One that tests the pointer (libstdc++) sets \<open>badbit\<close> on the stream and
    returns; one that measures the string first (\<open>traits::length\<close>, as the Microsoft and
    LLVM libraries do) reads through the null pointer, and the system ends the process.
\<close>

datatype null_policy = SetsBadbit | Faults

record platform =
  clock :: "nat \<Rightarrow> time_t"
  ctime :: "string option \<Rightarrow> time_t \<Rightarrow> string option"
  GetVersion :: DWORD
  sizeof_OSVERSIONINFO :: DWORD
  null_insertion :: null_policy

subsection \<open>The world\<close>

text \<open>
  Standard input is the characters not yet extracted, followed by either end-of-file (a
  closed pipe, an exhausted file) or an open stream on which nothing more arrives (a
  console nobody types at), where a read waits for ever.
\<close>

datatype stdin_end = Eof | Idle

text \<open>
  The calls \<open>main\<close> makes into the run-time and the operating system. \<open>Insert s\<close> is a
  call of the inserter with the text \<open>s\<close>, \<open>InsertNull\<close> one with a null pointer.
\<close>

datatype call =
    Insert string
  | InsertNull
  | Flush
  | Time
  | Ctime time_t
  | GetVersionCall
  | Extract

text \<open>
  The part of the system the program has no statement for. Of the environment, the
  variable \<open>TZ\<close> is the one the C run-time reads for \<open>ctime\<close>.
\<close>

record system =
  files :: "string \<rightharpoonup> string"
  environment :: "string \<rightharpoonup> string"
  network :: "string list"

definition TZ :: "system \<Rightarrow> string option" where
  "TZ sys = environment sys ''TZ''"

text \<open>
  \<open>cout\<close> is the text that has gone to standard output. \<open>cout_bad\<close> is the \<open>badbit\<close> of
  the stream \<open>std::cout\<close>: once it is set, an insertion writes nothing.
\<close>

record world =
  cout :: string
  cout_bad :: bool
  cin :: string
  cin_end :: stdin_end
  trace :: "call list"
  rest :: system

text \<open>The world a fresh process starts in: nothing written, no call made.\<close>

definition start :: "string \<Rightarrow> stdin_end \<Rightarrow> system \<Rightarrow> world" where
  "start inp e sys =
     \<lparr>cout = [], cout_bad = False, cin = inp, cin_end = e, trace = [], rest = sys\<rparr>"

subsection \<open>Outcomes of a step\<close>

text \<open>
  A step returns a value and the next world, or the run ends there: the system ends the
  process at a read through a null pointer, or the process waits for input that never
  comes. Both keep the world as it was at that point.
\<close>

datatype 'a result =
    Returns 'a world
  | Crashes world
  | BlocksForever world

definition and_then :: "'a result \<Rightarrow> ('a \<Rightarrow> world \<Rightarrow> 'b result) \<Rightarrow> 'b result" where
  "and_then r f =
     (case r of
        Returns x w \<Rightarrow> f x w
      | Crashes w \<Rightarrow> Crashes w
      | BlocksForever w \<Rightarrow> BlocksForever w)"

definition final_world :: "'a result \<Rightarrow> world" where
  "final_world r =
     (case r of
        Returns x w \<Rightarrow> w
      | Crashes w \<Rightarrow> w
      | BlocksForever w \<Rightarrow> w)"

subsection \<open>The library calls\<close>

definition logged :: "call \<Rightarrow> world \<Rightarrow> world" where
  "logged c w = w\<lparr>trace := trace w @ [c]\<rparr>"

text \<open>
  \<open>std::cout << s\<close> for a string literal: the characters are appended, unless the stream
  is bad.
\<close>

definition cout_str :: "string \<Rightarrow> world \<Rightarrow> unit result" where
  "cout_str s w =
     Returns () (logged (Insert s) (if cout_bad w then w else w\<lparr>cout := cout w @ s\<rparr>))"

text \<open>
  \<open>std::cout << p\<close> for a \<open>char*\<close> variable. With a null pointer the library of the
  platform decides: the stream becomes bad and the call returns, or the process is ended.
\<close>

definition cout_cstr :: "platform \<Rightarrow> string option \<Rightarrow> world \<Rightarrow> unit result" where
  "cout_cstr p s w =
     (case s of
        Some t \<Rightarrow> cout_str t w
      | None \<Rightarrow>
          (case null_insertion p of
             SetsBadbit \<Rightarrow> Returns () (logged InsertNull (w\<lparr>cout_bad := True\<rparr>))
           | Faults \<Rightarrow> Crashes (logged InsertNull w)))"

text \<open>
  \<open>std::cout << n\<close> for an unsigned integer, with the stream's initial flags: decimal, no
  padding, no digit grouping.
\<close>

definition digit :: "nat \<Rightarrow> char" where
  "digit d = ''0123456789'' ! d"

function decimal :: "nat \<Rightarrow> string" where
  "decimal n = (if n < 10 then [digit n] else decimal (n div 10) @ [digit (n mod 10)])"
  by pat_completeness auto
termination
  by (relation "measure (\<lambda>n. n)") auto

declare decimal.simps [simp del]

definition cout_ulong :: "DWORD \<Rightarrow> world \<Rightarrow> unit result" where
  "cout_ulong v w = cout_str (decimal (unat v)) w"

text \<open>\<open>std::endl\<close>: a newline (unless the stream is bad), then a flush.\<close>

definition endl :: "world \<Rightarrow> unit result" where
  "endl w =
     Returns () (logged Flush (logged (Insert [newline])
       (if cout_bad w then w else w\<lparr>cout := cout w @ [newline]\<rparr>)))"

text \<open>\<open>time(0)\<close>: the next reading of the clock.\<close>

definition time_calls :: "call list \<Rightarrow> nat" where
  "time_calls tr = length (filter (\<lambda>c. c = Time) tr)"

definition time0 :: "platform \<Rightarrow> world \<Rightarrow> time_t result" where
  "time0 p w = Returns (clock p (time_calls (trace w))) (logged Time w)"

text \<open>
  \<open>ctime(&now)\<close>: a pointer to the formatted text, or a null pointer. The time zone is
  the one the environment of the process names.
\<close>

definition ctime_of :: "platform \<Rightarrow> time_t \<Rightarrow> world \<Rightarrow> string option result" where
  "ctime_of p t w = Returns (ctime p (TZ (rest w)) t) (logged (Ctime t) w)"

definition get_version :: "platform \<Rightarrow> world \<Rightarrow> DWORD result" where
  "get_version p w = Returns (GetVersion p) (logged GetVersionCall w)"

text \<open>\<open>ZeroMemory(&osvi, sizeof(OSVERSIONINFO))\<close>: every byte of the structure is 0.\<close>

definition ZeroMemory :: "OSVERSIONINFO \<Rightarrow> OSVERSIONINFO" where
  "ZeroMemory s =
     \<lparr>dwOSVersionInfoSize = 0, dwMajorVersion = 0, dwMinorVersion = 0, dwBuildNumber = 0,
      dwPlatformId = 0, szCSDVersion = map (\<lambda>_. 0) (szCSDVersion s)\<rparr>"

text \<open>
  \<open>std::cin.get()\<close>: extracts one character if there is one; at end-of-file it returns
  at once with \<open>EOF\<close> (here \<open>None\<close>); on an open stream with nothing to read it waits.
\<close>

definition cin_get :: "world \<Rightarrow> char option result" where
  "cin_get w =
     (case cin w of
        c # cs \<Rightarrow> Returns (Some c) (logged Extract (w\<lparr>cin := cs\<rparr>))
      | [] \<Rightarrow>
          (case cin_end w of
             Eof \<Rightarrow> Returns None (logged Extract w)
           | Idle \<Rightarrow> BlocksForever (logged Extract w)))"

subsection \<open>\<open>main\<close>\<close>

text \<open>
  The statements of \<open>main\<close> in the order of the source. In a chain of \<open><<\<close> the left
  operand is evaluated first, so \<open>GetVersion()\<close> is called after \<open>"Windows Build: "\<close> has
  been inserted. \<open>garbage\<close> is the indeterminate content of the uninitialised local
  \<open>osvi\<close>. The result is the value \<open>main\<close> returns, the exit code of the process.
\<close>

definition greeting :: string where
  "greeting = ''Hello from Windows MCP Server (C++)!''"

definition prompt :: string where
  "prompt = newline # ''Press Enter to exit...''"

definition main :: "platform \<Rightarrow> OSVERSIONINFO \<Rightarrow> world \<Rightarrow> int result" where
  "main p garbage w0 =
     and_then (cout_str greeting w0) (\<lambda>_ w.
     and_then (endl w) (\<lambda>_ w.
     and_then (time0 p w) (\<lambda>now w.
     and_then (ctime_of p now w) (\<lambda>timeStr w.
     and_then (cout_str ''Built at: '' w) (\<lambda>_ w.
     and_then (cout_cstr p timeStr w) (\<lambda>_ w.
     (let osvi = garbage;
          osvi = ZeroMemory osvi;
          osvi = osvi\<lparr>dwOSVersionInfoSize := sizeof_OSVERSIONINFO p\<rparr>
      in
     and_then (cout_str ''Windows Build: '' w) (\<lambda>_ w.
     and_then (get_version p w) (\<lambda>v w.
     and_then (cout_ulong v w) (\<lambda>_ w.
     and_then (endl w) (\<lambda>_ w.
     and_then (cout_str prompt w) (\<lambda>_ w.
     and_then (cin_get w) (\<lambda>_ w.
     Returns 0 w)))))))))))))"

text \<open>A run of the program: \<open>main\<close> from the world of a fresh process.\<close>

definition run :: "platform \<Rightarrow> OSVERSIONINFO \<Rightarrow> string \<Rightarrow> stdin_end \<Rightarrow> system \<Rightarrow> int result" where
  "run p garbage inp e sys = main p garbage (start inp e sys)"

text \<open>The first line of a text: the characters before its first newline.\<close>

definition first_line :: "string \<Rightarrow> string" where
  "first_line s = takeWhile (\<lambda>c. c \<noteq> newline) s"

subsection \<open>Observations on a run\<close>

text \<open>The value \<open>main\<close> returns, the exit code of the process, when it returns.\<close>

definition exit_code :: "int result \<Rightarrow> int option" where
  "exit_code r =
     (case r of
        Returns x w \<Rightarrow> Some x
      | Crashes w \<Rightarrow> None
      | BlocksForever w \<Rightarrow> None)"

text \<open>How often the log holds a call of each kind, and the arguments \<open>ctime\<close> was given.\<close>

definition version_calls :: "call list \<Rightarrow> nat" where
  "version_calls tr = length (filter (\<lambda>c. c = GetVersionCall) tr)"

definition extract_calls :: "call list \<Rightarrow> nat" where
  "extract_calls tr = length (filter (\<lambda>c. c = Extract) tr)"

fun ctime_args :: "call list \<Rightarrow> time_t list" where
  "ctime_args [] = []"
| "ctime_args (Ctime t # cs) = t # ctime_args cs"
| "ctime_args (c # cs) = ctime_args cs"


subsection \<open>\<open>main\<close> without the unused structure\<close>

text \<open>
  The program with the declaration of \<open>osvi\<close>, the \<open>ZeroMemory\<close> call and the assignment
  to \<open>dwOSVersionInfoSize\<close> deleted, every other statement as in \<open>main\<close>.
\<close>

definition main_without_osvi :: "platform \<Rightarrow> world \<Rightarrow> int result" where
  "main_without_osvi p w0 =
     and_then (cout_str greeting w0) (\<lambda>_ w.
     and_then (endl w) (\<lambda>_ w.
     and_then (time0 p w) (\<lambda>now w.
     and_then (ctime_of p now w) (\<lambda>timeStr w.
     and_then (cout_str ''Built at: '' w) (\<lambda>_ w.
     and_then (cout_cstr p timeStr w) (\<lambda>_ w.
     and_then (cout_str ''Windows Build: '' w) (\<lambda>_ w.
     and_then (get_version p w) (\<lambda>v w.
     and_then (cout_ulong v w) (\<lambda>_ w.
     and_then (endl w) (\<lambda>_ w.
     and_then (cout_str prompt w) (\<lambda>_ w.
     and_then (cin_get w) (\<lambda>_ w.
     Returns 0 w))))))))))))"

subsection \<open>Sample hosts\<close>

text \<open>
  A host at noon UTC on 1 January 2025 whose \<open>ctime\<close> formats that instant (in Japanese
  time when \<open>TZ\<close> is \<open>JST-9\<close>, in UTC otherwise), whose \<open>GetVersion\<close> answers \<open>0x23F00206\<close>
  (version 6.2, build 9200) and whose C++ library sets \<open>badbit\<close> for a null string.
\<close>

definition sample_platform :: platform where
  "sample_platform =
     \<lparr>clock = (\<lambda>k. 1735732800),
      ctime = (\<lambda>tz t. if t = 1735732800
                    then (if tz = Some ''JST-9''
                          then Some (''Wed Jan 01 21:00:00 2025'' @ [newline])
                          else Some (''Wed Jan 01 12:00:00 2025'' @ [newline]))
                    else None),
      GetVersion = 602931718,
      sizeof_OSVERSIONINFO = 148,
      null_insertion = SetsBadbit\<rparr>"

text \<open>
  The same host when \<open>time\<close> fails and returns \<open>-1\<close>, a value its \<open>ctime\<close> has no text
  for; and that host with a C++ library that reads through a null string.
\<close>

definition failed_clock_platform :: platform where
  "failed_clock_platform = sample_platform\<lparr>clock := (\<lambda>k. - 1)\<rparr>"

definition faulting_platform :: platform where
  "faulting_platform = failed_clock_platform\<lparr>null_insertion := Faults\<rparr>"

text \<open>
  Stack memory as a debug build leaves it; a system with nothing in it; that system with
  \<open>TZ\<close> set; and a system with a file, another variable and some network traffic.
\<close>

definition debug_fill :: OSVERSIONINFO where
  "debug_fill =
     \<lparr>dwOSVersionInfoSize = 0xCCCCCCCC, dwMajorVersion = 0xCCCCCCCC,
      dwMinorVersion = 0xCCCCCCCC, dwBuildNumber = 0xCCCCCCCC, dwPlatformId = 0xCCCCCCCC,
      szCSDVersion = replicate 128 0xCC\<rparr>"

definition empty_system :: system where
  "empty_system = \<lparr>files = Map.empty, environment = Map.empty, network = []\<rparr>"



subsection \<open>The world at the prompt\<close>

text \<open>
  The world in which \<open>std::cin.get()\<close> is called, when \<open>ctime\<close> has returned \<open>timeStr\<close>
  and the insertion of it has returned: used to state the lemmas below.
\<close>

definition prompted :: "platform \<Rightarrow> string option \<Rightarrow> string \<Rightarrow> stdin_end \<Rightarrow> system \<Rightarrow> world" where
  "prompted p timeStr inp e sys =
     \<lparr>cout = greeting @ newline # ''Built at: '' @
             (case timeStr of
                Some ts \<Rightarrow> ts @ ''Windows Build: '' @ decimal (unat (GetVersion p)) @
                           newline # prompt
              | None \<Rightarrow> []),
      cout_bad = (timeStr = None),
      cin = inp, cin_end = e,
      trace = [Insert greeting, Insert [newline], Flush,
               Time, Ctime (clock p 0), Insert ''Built at: '',
               (case timeStr of Some ts \<Rightarrow> Insert ts | None \<Rightarrow> InsertNull),
               Insert ''Windows Build: '', GetVersionCall,
               Insert (decimal (unat (GetVersion p))), Insert [newline], Flush,
               Insert prompt],
      rest = sys\<rparr>"

text \<open>The world in which the process is ended, on a platform that reads through a null string.\<close>

definition crashed :: "platform \<Rightarrow> string \<Rightarrow> stdin_end \<Rightarrow> system \<Rightarrow> world" where
  "crashed p inp e sys =
     \<lparr>cout = greeting @ newline # ''Built at: '', cout_bad = False, cin = inp, cin_end = e,
      trace = [Insert greeting, Insert [newline], Flush, Time, Ctime (clock p 0),
               Insert ''Built at: '', InsertNull],
      rest = sys\<rparr>"

section \<open>Stepping through \<open>main\<close>\<close>

text \<open>
  The two insertions under a condition on the stream, so that a chain of steps is
  simplified one step at a time.
\<close>

lemma cout_str_good:
  "\<not> cout_bad w \<Longrightarrow>
   cout_str s w = Returns () (w\<lparr>cout := cout w @ s, trace := trace w @ [Insert s]\<rparr>)"
  by (simp add: cout_str_def logged_def)

lemma cout_str_bad:
  "cout_bad w \<Longrightarrow> cout_str s w = Returns () (w\<lparr>trace := trace w @ [Insert s]\<rparr>)"
  by (simp add: cout_str_def logged_def)

lemma endl_good:
  "\<not> cout_bad w \<Longrightarrow>
   endl w = Returns () (w\<lparr>cout := cout w @ [newline], trace := trace w @ [Insert [newline], Flush]\<rparr>)"
  by (simp add: endl_def logged_def)

lemma endl_bad:
  "cout_bad w \<Longrightarrow> endl w = Returns () (w\<lparr>trace := trace w @ [Insert [newline], Flush]\<rparr>)"
  by (simp add: endl_def logged_def)

lemma and_then_simps:
  "and_then (Returns x w) f = f x w"
  "and_then (Crashes w) f = Crashes w"
  "and_then (BlocksForever w) f = BlocksForever w"
  by (simp_all add: and_then_def)

lemmas step_defs =
  and_then_simps cout_str_good cout_str_bad endl_good endl_bad cout_cstr_def cout_ulong_def
  time0_def ctime_of_def get_version_def cin_get_def logged_def time_calls_def

lemma greeting_no_newline: "newline \<notin> set greeting"
  by (simp add: greeting_def)

lemma first_line_greeting: "first_line (greeting @ newline # s) = greeting"
  unfolding first_line_def
  by (simp add: takeWhile_tail greeting_def)

lemma run_crashes:
  assumes "ctime p (TZ sys) (clock p 0) = None" and "null_insertion p = Faults"
  shows "run p g inp e sys = Crashes (crashed p inp e sys)"
  using assms by (simp add: run_def main_def start_def crashed_def step_defs)

lemma run_reaches_read:
  assumes "ctime p (TZ sys) (clock p 0) \<noteq> None \<or> null_insertion p = SetsBadbit"
  shows "run p g inp e sys =
    and_then (cin_get (prompted p (ctime p (TZ sys) (clock p 0)) inp e sys)) (\<lambda>_ w. Returns 0 w)"
proof (cases "ctime p (TZ sys) (clock p 0)")
  case None
  with assms have "null_insertion p = SetsBadbit" by simp
  with None show ?thesis
    by (cases inp; cases e)
      (simp_all add: run_def main_def start_def prompted_def step_defs Let_def)
next
  case (Some ts)
  then show ?thesis
    by (cases inp; cases e)
      (simp_all add: run_def main_def start_def prompted_def step_defs Let_def)
qed

lemma run_char:
  assumes "ctime p (TZ sys) (clock p 0) \<noteq> None \<or> null_insertion p = SetsBadbit"
  shows "run p g (c # cs) e sys =
    Returns 0 (logged Extract (prompted p (ctime p (TZ sys) (clock p 0)) cs e sys))"
  by (simp add: run_reaches_read[OF assms] prompted_def cin_get_def and_then_simps logged_def)

lemma run_eof:
  assumes "ctime p (TZ sys) (clock p 0) \<noteq> None \<or> null_insertion p = SetsBadbit"
  shows "run p g [] Eof sys =
    Returns 0 (logged Extract (prompted p (ctime p (TZ sys) (clock p 0)) [] Eof sys))"
  by (simp add: run_reaches_read[OF assms] prompted_def cin_get_def and_then_simps logged_def)

lemma run_idle:
  assumes "ctime p (TZ sys) (clock p 0) \<noteq> None \<or> null_insertion p = SetsBadbit"
  shows "run p g [] Idle sys =
    BlocksForever (logged Extract (prompted p (ctime p (TZ sys) (clock p 0)) [] Idle sys))"
  by (simp add: run_reaches_read[OF assms] prompted_def cin_get_def and_then_simps logged_def)

lemma final_world_read:
  assumes "ctime p (TZ sys) (clock p 0) \<noteq> None \<or> null_insertion p = SetsBadbit"
  shows "final_world (run p g inp e sys) =
    logged Extract (prompted p (ctime p (TZ sys) (clock p 0)) (tl inp) e sys)"
proof (cases inp)
  case Nil
  then show ?thesis
    using run_eof[OF assms] run_idle[OF assms]
    by (cases e) (simp_all add: final_world_def)
next
  case (Cons c cs)
  then show ?thesis
    using run_char[OF assms] by (simp add: final_world_def)
qed

lemma final_world_crashes:
  assumes "ctime p (TZ sys) (clock p 0) = None" and "null_insertion p = Faults"
  shows "final_world (run p g inp e sys) = crashed p inp e sys"
  by (simp add: run_crashes[OF assms] final_world_def)

text \<open>Every run is of one of the two kinds.\<close>

lemma reaches_read_or_crashes:
  "(ctime p (TZ sys) (clock p 0) \<noteq> None \<or> null_insertion p = SetsBadbit) \<or>
   (ctime p (TZ sys) (clock p 0) = None \<and> null_insertion p = Faults)"
  by (cases "null_insertion p"; cases "ctime p (TZ sys) (clock p 0)") simp_all

lemma rest_final: "rest (final_world (run p g inp e sys)) = sys"
  using reaches_read_or_crashes[of p sys]
  by (auto simp: final_world_read final_world_crashes prompted_def crashed_def logged_def)

lemma trace_read:
  assumes "ctime p (TZ sys) (clock p 0) \<noteq> None \<or> null_insertion p = SetsBadbit"
  shows "trace (final_world (run p g inp e sys)) =
     [Insert greeting, Insert [newline], Flush,
      Time, Ctime (clock p 0), Insert ''Built at: '',
      (case ctime p (TZ sys) (clock p 0) of Some ts \<Rightarrow> Insert ts | None \<Rightarrow> InsertNull),
      Insert ''Windows Build: '', GetVersionCall,
      Insert (decimal (unat (GetVersion p))), Insert [newline], Flush,
      Insert prompt, Extract]"
  by (simp add: final_world_read[OF assms] prompted_def logged_def)

lemma cout_formatted:
  assumes "ctime p (TZ sys) (clock p 0) = Some ts"
  shows "cout (final_world (run p g inp e sys)) =
     greeting @ newline # ''Built at: '' @ ts @ ''Windows Build: '' @
     decimal (unat (GetVersion p)) @ newline # prompt"
  using assms by (simp add: final_world_read prompted_def logged_def)

lemma cout_null:
  assumes "ctime p (TZ sys) (clock p 0) = None"
  shows "cout (final_world (run p g inp e sys)) = greeting @ newline # ''Built at: ''"
  using reaches_read_or_crashes[of p sys] assms
  by (auto simp: final_world_read final_world_crashes prompted_def crashed_def logged_def)

subsection \<open>Decimal numerals\<close>

lemma decimal_not_empty: "decimal n \<noteq> []"
  by (induction n rule: decimal.induct) (subst decimal.simps, simp)

lemma digit_in: "d < 10 \<Longrightarrow> digit d \<in> set ''0123456789''"
  unfolding digit_def by (rule nth_mem) simp

lemma decimal_digits: "set (decimal n) \<subseteq> set ''0123456789''"
proof (induction n rule: decimal.induct)
  case (1 n)
  show ?case
  proof (cases "n < 10")
    case True
    then show ?thesis using digit_in[of n] by (subst decimal.simps) simp
  next
    case False
    have "digit (n mod 10) \<in> set ''0123456789''" by (rule digit_in) simp
    with False 1 show ?thesis by (subst decimal.simps) simp
  qed
qed

subsection \<open>The sample hosts\<close>

lemma empty_TZ: "TZ empty_system = None"
  by (simp add: TZ_def empty_system_def)

lemma sample_ctime:
  "ctime sample_platform (TZ empty_system) (clock sample_platform 0) =
     Some (''Wed Jan 01 12:00:00 2025'' @ [newline])"
  by (simp add: sample_platform_def empty_TZ)

lemma sample_reaches_read:
  "ctime sample_platform (TZ empty_system) (clock sample_platform 0) \<noteq> None \<or>
   null_insertion sample_platform = SetsBadbit"
  by (simp add: sample_ctime)

lemma failed_clock_ctime:
  "ctime failed_clock_platform (TZ empty_system) (clock failed_clock_platform 0) = None"
  by (simp add: failed_clock_platform_def sample_platform_def)

lemma failed_clock_badbit: "null_insertion failed_clock_platform = SetsBadbit"
  by (simp add: failed_clock_platform_def sample_platform_def)

lemma failed_clock_reaches_read:
  "ctime failed_clock_platform (TZ empty_system) (clock failed_clock_platform 0) \<noteq> None \<or>
   null_insertion failed_clock_platform = SetsBadbit"
  by (simp add: failed_clock_badbit)

lemma faulting_ctime:
  "ctime faulting_platform (TZ empty_system) (clock faulting_platform 0) = None"
  by (simp add: faulting_platform_def failed_clock_platform_def sample_platform_def)

lemma faulting_faults: "null_insertion faulting_platform = Faults"
  by (simp add: faulting_platform_def)

lemma faulting_clock: "clock faulting_platform 0 = - 1"
  by (simp add: faulting_platform_def failed_clock_platform_def)

lemma sample_decimal: "decimal (unat (GetVersion sample_platform)) = ''602931718''"
  by (simp add: decimal.simps digit_def sample_platform_def)

lemma failed_clock_decimal: "decimal (unat (GetVersion failed_clock_platform)) = ''602931718''"
  by (simp add: decimal.simps digit_def failed_clock_platform_def sample_platform_def)

section \<open>The properties\<close>

text \<open>
  C1. Run with the single character newline on standard input, on a host whose
  \<open>ctime\<close> formats the time read, the program writes exactly the greeting line,
  \<open>Built at: \<close> and the formatted time (which ends its own line), \<open>Windows Build: \<close> and the
  decimal value of \<open>GetVersion()\<close>, an empty line and the prompt; it consumes the newline,
  does not wait any further, and returns 0.
\<close>

theorem newline_scenario:
  assumes "ctime p (TZ sys) (clock p 0) = Some ts"
  shows "\<exists>w. run p g [newline] e sys = Returns 0 w \<and>
    cout w = ''Hello from Windows MCP Server (C++)!'' @ newline #
             ''Built at: '' @ ts @
             ''Windows Build: '' @ decimal (unat (GetVersion p)) @ newline #
             newline # ''Press Enter to exit...'' \<and>
    cin w = []"
  using assms by (simp add: run_char prompted_def logged_def greeting_def prompt_def)

theorem newline_scenario_witness:
  "ctime sample_platform (TZ empty_system) (clock sample_platform 0) =
     Some (''Wed Jan 01 12:00:00 2025'' @ [newline]) \<and>
   (\<exists>w. run sample_platform debug_fill [newline] Eof empty_system = Returns 0 w \<and>
     cout w = ''Hello from Windows MCP Server (C++)!'' @ newline #
              ''Built at: Wed Jan 01 12:00:00 2025'' @ newline #
              ''Windows Build: 602931718'' @ newline #
              newline # ''Press Enter to exit...'' \<and>
     cin w = [])"
  using newline_scenario[OF sample_ctime, of debug_fill Eof]
  by (simp add: sample_ctime sample_decimal)

text \<open>
  C2. On every run, whatever the clock, \<open>ctime\<close>, the version value and the standard
  input are, the first line written is exactly \<open>Hello from Windows MCP Server (C++)!\<close>
  (also on a run that is ended at a null string or waits for ever at the prompt), so
  replacing the clock, the time formatting and the version value leaves it as it is.
\<close>

theorem greeting_first_line:
  "first_line (cout (final_world (run p g inp e sys))) = ''Hello from Windows MCP Server (C++)!'' \<and>
   first_line (cout (final_world (run (p\<lparr>clock := c, ctime := f, GetVersion := v\<rparr>) g inp e sys))) =
   first_line (cout (final_world (run p g inp e sys)))"
proof -
  have first: "first_line (cout (final_world (run q g inp e sys))) = greeting" for q
    using reaches_read_or_crashes[of q sys]
  proof
    assume "ctime q (TZ sys) (clock q 0) \<noteq> None \<or> null_insertion q = SetsBadbit"
    then show ?thesis
      by (simp add: final_world_read prompted_def logged_def first_line_greeting)
  next
    assume "ctime q (TZ sys) (clock q 0) = None \<and> null_insertion q = Faults"
    then show ?thesis
      by (simp add: final_world_crashes crashed_def first_line_greeting)
  qed
  show ?thesis
    by (simp add: first) (simp add: greeting_def)
qed

text \<open>
  C4. On every run the clock is read exactly once and \<open>ctime\<close> is called exactly once, on
  exactly the value read; whenever \<open>ctime\<close> returns a text for it, the output is the
  greeting line followed by \<open>Built at: \<close> and exactly that text.
\<close>

theorem built_at_line:
  "time_calls (trace (final_world (run p g inp e sys))) = 1 \<and>
   ctime_args (trace (final_world (run p g inp e sys))) = [clock p 0] \<and>
   (ctime p (TZ sys) (clock p 0) = Some ts \<longrightarrow>
      (\<exists>tail. cout (final_world (run p g inp e sys)) =
         ''Hello from Windows MCP Server (C++)!'' @ newline # ''Built at: '' @ ts @ tail))"
proof -
  have calls: "time_calls (trace (final_world (run p g inp e sys))) = 1 \<and>
      ctime_args (trace (final_world (run p g inp e sys))) = [clock p 0]"
    using reaches_read_or_crashes[of p sys]
  proof
    assume ok: "ctime p (TZ sys) (clock p 0) \<noteq> None \<or> null_insertion p = SetsBadbit"
    show ?thesis
      by (cases "ctime p (TZ sys) (clock p 0)")
        (simp_all add: trace_read[OF ok] time_calls_def)
  next
    assume "ctime p (TZ sys) (clock p 0) = None \<and> null_insertion p = Faults"
    then show ?thesis
      by (simp add: final_world_crashes crashed_def time_calls_def)
  qed
  then show ?thesis
    by (simp add: cout_formatted greeting_def)
qed

theorem built_at_line_witness:
  "time_calls (trace (final_world (run sample_platform debug_fill [newline] Eof empty_system))) = 1 \<and>
   ctime_args (trace (final_world (run sample_platform debug_fill [newline] Eof empty_system))) =
     [1735732800] \<and>
   ctime sample_platform (TZ empty_system) 1735732800 =
     Some (''Wed Jan 01 12:00:00 2025'' @ [newline]) \<and>
   (\<exists>tail. cout (final_world (run sample_platform debug_fill [newline] Eof empty_system)) =
      ''Hello from Windows MCP Server (C++)!'' @ newline #
      ''Built at: Wed Jan 01 12:00:00 2025'' @ newline # tail)"
  using built_at_line[where p = sample_platform and g = debug_fill and inp = "[newline]"
      and e = Eof and sys = empty_system and ts = "''Wed Jan 01 12:00:00 2025'' @ [newline]"]
  by (simp add: sample_platform_def empty_TZ)

text \<open>
  C4 as stated, on every run, fails: with a null pointer from \<open>ctime\<close> the output stops
  after \<open>Built at: \<close>, and no formatted time is written.
\<close>

theorem built_at_line_counterexample:
  "cout (final_world (run failed_clock_platform debug_fill [newline] Eof empty_system)) =
     ''Hello from Windows MCP Server (C++)!'' @ newline # ''Built at: ''"
  by (simp add: cout_null[OF failed_clock_ctime] greeting_def)

lemma sizeof_not_used:
  "time0 (p\<lparr>sizeof_OSVERSIONINFO := s\<rparr>) = time0 p"
  "ctime_of (p\<lparr>sizeof_OSVERSIONINFO := s\<rparr>) = ctime_of p"
  "cout_cstr (p\<lparr>sizeof_OSVERSIONINFO := s\<rparr>) = cout_cstr p"
  "get_version (p\<lparr>sizeof_OSVERSIONINFO := s\<rparr>) = get_version p"
  by (simp_all add: fun_eq_iff time0_def ctime_of_def cout_cstr_def get_version_def
      split: option.splits)

text \<open>
  C9. \<open>main\<close> and the program without the three statements on \<open>osvi\<close> have the same
  outcome in every world: the same exit code or the same way of not returning, the same
  output, the same input left, the same calls. The outcome depends neither on the
  indeterminate initial content of \<open>osvi\<close> nor on the size stored into it.
\<close>

theorem osvi_unused:
  "main p g w = main_without_osvi p w \<and>
   main (p\<lparr>sizeof_OSVERSIONINFO := s\<rparr>) g' w = main p g w"
  by (simp add: main_def main_without_osvi_def Let_def sizeof_not_used)

text \<open>
  C3. On every run on which \<open>ctime\<close> returns a text for the time read, or on which the
  library sets \<open>badbit\<close> for a null string, \<open>main\<close> returns 0 as soon as standard input
  holds a character or is at end-of-file; and on no run at all does \<open>main\<close> return
  another value than 0. The witness is the host whose \<open>time\<close> fails, with a library that
  sets \<open>badbit\<close>.
\<close>

theorem exit_code_zero:
  "((ctime p (TZ sys) (clock p 0) \<noteq> None \<or> null_insertion p = SetsBadbit) \<and>
    (inp \<noteq> [] \<or> e = Eof) \<longrightarrow>
      exit_code (run p g inp e sys) = Some 0) \<and>
   (exit_code (run p g inp e sys) = None \<or> exit_code (run p g inp e sys) = Some 0)"
  using reaches_read_or_crashes[of p sys]
proof
  assume ok: "ctime p (TZ sys) (clock p 0) \<noteq> None \<or> null_insertion p = SetsBadbit"
  show ?thesis
  proof (cases inp)
    case Nil
    then show ?thesis
      by (cases e) (simp_all add: run_eof[OF ok] run_idle[OF ok] exit_code_def)
  next
    case (Cons c cs)
    then show ?thesis
      by (simp add: run_char[OF ok] exit_code_def)
  qed
next
  assume "ctime p (TZ sys) (clock p 0) = None \<and> null_insertion p = Faults"
  then show ?thesis
    by (simp add: run_crashes exit_code_def)
qed

theorem exit_code_zero_witness:
  "null_insertion failed_clock_platform = SetsBadbit \<and> [newline] \<noteq> [] \<and>
   exit_code (run failed_clock_platform debug_fill [newline] Eof empty_system) = Some 0"
  using exit_code_zero[where p = failed_clock_platform and inp = "[newline]" and e = Eof
      and g = debug_fill and sys = empty_system]
  by (simp add: failed_clock_badbit)

text \<open>
  C3 as stated, for every clock value, fails: when \<open>time\<close> returns \<open>-1\<close>, \<open>ctime\<close> answers
  with a null pointer and the library reads through it, the process is ended before
  \<open>return 0\<close>.
\<close>

theorem exit_code_zero_counterexample:
  "exit_code (run faulting_platform debug_fill [newline] Eof empty_system) \<noteq> Some 0"
  by (simp add: run_crashes[OF faulting_ctime faulting_faults] exit_code_def)

text \<open>
  C5. On every run on which \<open>ctime\<close> returns a text for the time read, whatever value
  \<open>GetVersion()\<close> answers, \<open>Windows Build: \<close> is followed, up to the end of its line, by the
  decimal numeral of that value, which is not empty and consists of digits only. The
  witness is a host whose version value is 0.
\<close>

theorem windows_build_value:
  assumes "ctime p (TZ sys) (clock p 0) = Some ts"
  shows "\<exists>val. cout (final_world (run p g inp e sys)) =
      ''Hello from Windows MCP Server (C++)!'' @ newline # ''Built at: '' @ ts @
      ''Windows Build: '' @ val @ newline # newline # ''Press Enter to exit...'' \<and>
    val = decimal (unat (GetVersion p)) \<and> val \<noteq> [] \<and> set val \<subseteq> set ''0123456789''"
  using decimal_digits[of "unat (GetVersion p)"]
  by (simp add: cout_formatted[OF assms] greeting_def prompt_def decimal_not_empty)

theorem windows_build_value_witness:
  "ctime (sample_platform\<lparr>GetVersion := 0\<rparr>) (TZ empty_system)
      (clock (sample_platform\<lparr>GetVersion := 0\<rparr>) 0) =
     Some (''Wed Jan 01 12:00:00 2025'' @ [newline]) \<and>
   cout (final_world (run (sample_platform\<lparr>GetVersion := 0\<rparr>) debug_fill [] Eof empty_system)) =
      ''Hello from Windows MCP Server (C++)!'' @ newline #
      ''Built at: Wed Jan 01 12:00:00 2025'' @ newline #
      ''Windows Build: 0'' @ newline # newline # ''Press Enter to exit...''"
proof -
  have h: "ctime (sample_platform\<lparr>GetVersion := 0\<rparr>) (TZ empty_system)
      (clock (sample_platform\<lparr>GetVersion := 0\<rparr>) 0) =
     Some (''Wed Jan 01 12:00:00 2025'' @ [newline])"
    by (simp add: sample_platform_def empty_TZ)
  have d: "decimal 0 = ''0''"
    by (simp add: decimal.simps digit_def)
  from windows_build_value[OF h, of debug_fill "[]" Eof] show ?thesis
    using h by (auto simp: d)
qed

text \<open>
  C5 as stated, on every run, fails: with a null pointer from \<open>ctime\<close> the stream is bad
  when the version is inserted, and the output holds no \<open>Windows Build:\<close> at all.
\<close>

theorem windows_build_value_counterexample:
  "\<not> sublist ''Windows Build:''
      (cout (final_world (run failed_clock_platform debug_fill [newline] Eof empty_system)))"
  by (simp add: cout_null[OF failed_clock_ctime] greeting_def sublist_Cons_right)

text \<open>
  C6. On every run on which \<open>ctime\<close> returns a text, or on which the library sets
  \<open>badbit\<close> for a null string, the calls of the program are, in this order and each
  once: the greeting and its \<open>endl\<close> (PrintGreeting); \<open>time\<close>, \<open>ctime\<close>, \<open>Built at: \<close> and
  the insertion of what \<open>ctime\<close> returned (PrintTime); \<open>Windows Build: \<close>, \<open>GetVersion\<close>,
  the numeral and \<open>endl\<close> (PrintVersion); the prompt and the read (WaitForInput). The
  read is the last call, so nothing is written after it; then \<open>main\<close> returns 0, except
  on an open standard input with nothing to read, where the run stays in the read.
\<close>

theorem linear_execution:
  assumes "ctime p (TZ sys) (clock p 0) \<noteq> None \<or> null_insertion p = SetsBadbit"
  shows "trace (final_world (run p g inp e sys)) =
      [Insert ''Hello from Windows MCP Server (C++)!'', Insert [newline], Flush] @
      [Time, Ctime (clock p 0), Insert ''Built at: '',
       (case ctime p (TZ sys) (clock p 0) of Some ts \<Rightarrow> Insert ts | None \<Rightarrow> InsertNull)] @
      [Insert ''Windows Build: '', GetVersionCall, Insert (decimal (unat (GetVersion p))),
       Insert [newline], Flush] @
      [Insert (newline # ''Press Enter to exit...''), Extract] \<and>
    (run p g inp e sys = Returns 0 (final_world (run p g inp e sys)) \<or>
     inp = [] \<and> e = Idle \<and>
     run p g inp e sys = BlocksForever (final_world (run p g inp e sys)))"
proof -
  have "run p g inp e sys = Returns 0 (final_world (run p g inp e sys)) \<or>
     inp = [] \<and> e = Idle \<and>
     run p g inp e sys = BlocksForever (final_world (run p g inp e sys))"
  proof (cases inp)
    case Nil
    then show ?thesis
      by (cases e) (simp_all add: run_eof[OF assms] run_idle[OF assms] final_world_def)
  next
    case (Cons c cs)
    then show ?thesis
      by (simp add: run_char[OF assms] final_world_def)
  qed
  then show ?thesis
    by (simp add: trace_read[OF assms] greeting_def prompt_def)
qed

theorem linear_execution_witness:
  "null_insertion failed_clock_platform = SetsBadbit \<and>
   trace (final_world (run failed_clock_platform debug_fill [newline] Eof empty_system)) =
      [Insert ''Hello from Windows MCP Server (C++)!'', Insert [newline], Flush,
       Time, Ctime (- 1), Insert ''Built at: '', InsertNull,
       Insert ''Windows Build: '', GetVersionCall, Insert ''602931718'',
       Insert [newline], Flush,
       Insert (newline # ''Press Enter to exit...''), Extract] \<and>
   exit_code (run failed_clock_platform debug_fill [newline] Eof empty_system) = Some 0"
proof -
  have c: "clock failed_clock_platform 0 = - 1"
    by (simp add: failed_clock_platform_def)
  have t: "ctime failed_clock_platform (TZ empty_system) (- 1) = None"
    by (simp add: failed_clock_platform_def sample_platform_def)
  have x: "exit_code (run failed_clock_platform debug_fill [newline] Eof empty_system) = Some 0"
    by (simp add: run_char[OF failed_clock_reaches_read] exit_code_def)
  from linear_execution[OF failed_clock_reaches_read, of debug_fill "[newline]" Eof]
  show ?thesis
    by (simp add: failed_clock_badbit failed_clock_decimal c t x)
qed

text \<open>
  C6 as stated, on every run, fails: when \<open>ctime\<close> answers with a null pointer and the
  library reads through it, the process is ended inside PrintTime.
\<close>

theorem linear_execution_counterexample:
  "run faulting_platform debug_fill [newline] Eof empty_system =
     Crashes
       \<lparr>cout = ''Hello from Windows MCP Server (C++)!'' @ newline # ''Built at: '',
        cout_bad = False, cin = [newline], cin_end = Eof,
        trace = [Insert ''Hello from Windows MCP Server (C++)!'', Insert [newline], Flush,
                 Time, Ctime (- 1), Insert ''Built at: '', InsertNull],
        rest = empty_system\<rparr>"
  by (simp add: run_crashes[OF faulting_ctime faulting_faults] crashed_def greeting_def
      faulting_clock)




text \<open>
  C8. On every run the clock is read exactly once and \<open>GetVersion\<close> is called at most
  once; it is called exactly once on every run on which \<open>ctime\<close> returns a text, or on
  which the library sets \<open>badbit\<close> for a null string. Neither value is stored anywhere
  in the system: its files, environment and network are unchanged.
\<close>

theorem read_once:
  "time_calls (trace (final_world (run p g inp e sys))) = 1 \<and>
   version_calls (trace (final_world (run p g inp e sys))) \<le> 1 \<and>
   (ctime p (TZ sys) (clock p 0) \<noteq> None \<or> null_insertion p = SetsBadbit \<longrightarrow>
      version_calls (trace (final_world (run p g inp e sys))) = 1) \<and>
   rest (final_world (run p g inp e sys)) = sys"
  using reaches_read_or_crashes[of p sys]
proof
  assume ok: "ctime p (TZ sys) (clock p 0) \<noteq> None \<or> null_insertion p = SetsBadbit"
  show ?thesis
    by (cases "ctime p (TZ sys) (clock p 0)")
      (simp_all add: trace_read[OF ok] rest_final time_calls_def version_calls_def)
next
  assume "ctime p (TZ sys) (clock p 0) = None \<and> null_insertion p = Faults"
  then show ?thesis
    by (simp add: final_world_crashes rest_final[simplified] crashed_def time_calls_def
        version_calls_def)
qed

theorem read_once_witness:
  "null_insertion failed_clock_platform = SetsBadbit \<and>
   time_calls (trace (final_world
      (run failed_clock_platform debug_fill [newline] Eof empty_system))) = 1 \<and>
   version_calls (trace (final_world
      (run failed_clock_platform debug_fill [newline] Eof empty_system))) = 1"
  using read_once[where p = failed_clock_platform and g = debug_fill and inp = "[newline]"
      and e = Eof and sys = empty_system]
  by (simp add: failed_clock_badbit)

text \<open>
  C8 as stated, on every run, fails for the version: when \<open>ctime\<close> answers with a null
  pointer and the library reads through it, the process is ended before \<open>GetVersion\<close>
  has been called.
\<close>

theorem read_once_counterexample:
  "version_calls (trace (final_world
      (run faulting_platform debug_fill [newline] Eof empty_system))) = 0"
  by (simp add: final_world_crashes[OF faulting_ctime faulting_faults] crashed_def
      version_calls_def)

text \<open>
  C10. On every run on which \<open>ctime\<close> returns a text, or on which the library sets
  \<open>badbit\<close> for a null string, the read takes exactly one character: with \<open>c\<close> first on
  standard input, newline or not, \<open>main\<close> returns 0 with everything after \<open>c\<close> still
  unread, after exactly one read; with standard input empty and at end-of-file, the read
  returns at once and \<open>main\<close> returns 0 all the same.
\<close>

theorem one_character_acknowledgment:
  assumes "ctime p (TZ sys) (clock p 0) \<noteq> None \<or> null_insertion p = SetsBadbit"
  shows "(\<exists>w. run p g (c # cs) e sys = Returns 0 w \<and> cin w = cs \<and>
            extract_calls (trace w) = 1) \<and>
         (\<exists>w. run p g [] Eof sys = Returns 0 w \<and> cin w = [])"
  by (cases "ctime p (TZ sys) (clock p 0)")
    (simp_all add: run_char[OF assms] run_eof[OF assms] prompted_def logged_def
      extract_calls_def)

theorem one_character_acknowledgment_witness:
  "null_insertion failed_clock_platform = SetsBadbit \<and>
   (\<exists>w. run failed_clock_platform debug_fill (''yes'' @ [newline]) Idle empty_system =
          Returns 0 w \<and>
        cin w = ''es'' @ [newline] \<and> extract_calls (trace w) = 1) \<and>
   (\<exists>w. run failed_clock_platform debug_fill [] Eof empty_system = Returns 0 w \<and> cin w = [])"
  using one_character_acknowledgment[OF failed_clock_reaches_read, of debug_fill "CHR ''y''"
      "''es'' @ [newline]" Idle]
  by (simp add: failed_clock_badbit)

text \<open>
  C10 as stated, for any standard input, fails: when \<open>ctime\<close> answers with a null pointer
  and the library reads through it, the process is ended before the read, and no
  character is taken.
\<close>

theorem one_character_acknowledgment_counterexample:
  "extract_calls (trace (final_world
      (run faulting_platform debug_fill (''yes'' @ [newline]) Eof empty_system))) = 0 \<and>
   cin (final_world (run faulting_platform debug_fill (''yes'' @ [newline]) Eof empty_system)) =
     ''yes'' @ [newline]"
  by (simp add: final_world_crashes[OF faulting_ctime faulting_faults] crashed_def
      extract_calls_def)

end
